theory Spec2Isabelle
  imports Complex_Main "HOL-Library.Char_ord" "HOL-Library.List_Lexorder"
begin

section \<open>Data model\<close>

text \<open>
  Python floats are idealised as real numbers: \<open>+\<close>, \<open>-\<close>, \<open>*\<close>, \<open>/\<close>, \<open>max\<close>, \<open>min\<close>
  and the comparisons are the exact ones.  Tag values and theme keys are byte strings;
  display names are sequences of Unicode code points, since \<open>len\<close>, \<open>ord\<close> and
  \<open>isalpha\<close> work on code points.
\<close>

type_synonym codepoint = nat
type_synonym ustring = "codepoint list"

text \<open>An interval \<open>(lo, hi)\<close> per axis, as \<open>get_crop_limits\<close> returns them.\<close>

type_synonym limits = "(real \<times> real) \<times> (real \<times> real)"

text \<open>
  An OSM tag value as OSMnx stores it on an edge: a single string or a list of strings.
  A key that the edge does not carry is absent from the dict.
\<close>

datatype tagval = Str string | Lst "string list"

type_synonym edge_data = "string \<rightharpoonup> tagval"

record graph =
  edges :: "(nat \<times> nat \<times> edge_data) list"
  crs :: string

text \<open>A theme maps colour-role names to colours.\<close>

type_synonym theme = "string \<rightharpoonup> string"

datatype py_error =
    RuntimeError string
  | ValueError string
  | KeyError string
  | ZeroDivisionError
  | CacheError
  | OtherException string

section \<open>poster\_util.py\<close>

subsection \<open>Edge colours\<close>

text \<open>
  Lines 65-68 (and 208-211): the value of the local \<open>railway\<close> after the list
  normalisation; \<open>None\<close> is Python's \<open>None\<close>.
\<close>

definition railway_value :: "edge_data \<Rightarrow> string option" where
  "railway_value data =
     (case data ''railway'' of
        None \<Rightarrow> None
      | Some (Str s) \<Rightarrow> Some s
      | Some (Lst xs) \<Rightarrow> (case xs of [] \<Rightarrow> None | x # _ \<Rightarrow> Some x))"

text \<open>Lines 86-89 (and 229-232): the local \<open>highway\<close>, with its default.\<close>

definition highway_value :: "edge_data \<Rightarrow> string" where
  "highway_value data =
     (case data ''highway'' of
        None \<Rightarrow> ''unclassified''
      | Some (Str s) \<Rightarrow> s
      | Some (Lst xs) \<Rightarrow> (case xs of [] \<Rightarrow> ''unclassified'' | x # _ \<Rightarrow> x))"

text \<open>Lines 71-80: the key looked up in \<open>THEME\<close> on the railway path.\<close>

definition rail_color_role :: "string \<Rightarrow> string" where
  "rail_color_role railway =
     (if railway \<in> set [''rail'', ''subway''] then ''rail_heavy''
      else if railway \<in> set [''light_rail'', ''tram''] then ''rail_light''
      else if railway \<in> set [''narrow_gauge'', ''funicular'', ''monorail''] then ''rail_special''
      else if railway \<in> set [''service'', ''yard'', ''siding''] then ''rail_service''
      else ''rail_default'')"

text \<open>Lines 91-102: the key looked up in \<open>THEME\<close> on the highway path.\<close>

definition highway_color_role :: "string \<Rightarrow> string" where
  "highway_color_role highway =
     (if highway \<in> set [''motorway'', ''motorway_link''] then ''road_motorway''
      else if highway \<in> set [''trunk'', ''trunk_link'', ''primary'', ''primary_link'']
        then ''road_primary''
      else if highway \<in> set [''secondary'', ''secondary_link''] then ''road_secondary''
      else if highway \<in> set [''tertiary'', ''tertiary_link''] then ''road_tertiary''
      else if highway \<in> set [''residential'', ''living_street'', ''unclassified'']
        then ''road_residential''
      else ''road_default'')"

text \<open>
  One iteration of the loop of \<open>get_edge_colors_by_type\<close>, up to the theme lookup.
  \<open>if railway:\<close> is Python truthiness: \<open>None\<close> and the empty string are false.
\<close>

definition edge_color_role :: "edge_data \<Rightarrow> string" where
  "edge_color_role data =
     (case railway_value data of
        Some railway \<Rightarrow>
          if railway \<noteq> [] then rail_color_role railway
          else highway_color_role (highway_value data)
      | None \<Rightarrow> highway_color_role (highway_value data))"

text \<open>The loop itself: \<open>THEME[key]\<close> raises \<open>KeyError\<close> on a missing key.\<close>

fun edge_colors_loop ::
  "theme \<Rightarrow> (nat \<times> nat \<times> edge_data) list \<Rightarrow> string list \<Rightarrow> py_error + string list" where
  "edge_colors_loop THEME [] edge_colors = Inr edge_colors"
| "edge_colors_loop THEME ((u, v, data) # rest) edge_colors =
     (case THEME (edge_color_role data) of
        None \<Rightarrow> Inl (KeyError (edge_color_role data))
      | Some color \<Rightarrow> edge_colors_loop THEME rest (edge_colors @ [color]))"

definition get_edge_colors_by_type :: "theme \<Rightarrow> graph \<Rightarrow> py_error + string list" where
  "get_edge_colors_by_type THEME g = edge_colors_loop THEME (edges g) []"

subsection \<open>Edge widths\<close>

text \<open>Lines 214-223.\<close>

definition rail_width :: "string \<Rightarrow> real" where
  "rail_width railway =
     (if railway \<in> set [''rail'', ''subway''] then 1.0
      else if railway \<in> set [''light_rail'', ''tram''] then 0.8
      else if railway \<in> set [''narrow_gauge'', ''funicular'', ''monorail''] then 0.6
      else if railway \<in> set [''service'', ''yard'', ''siding''] then 0.4
      else 0.5)"

text \<open>Lines 234-243.\<close>

definition highway_width :: "string \<Rightarrow> real" where
  "highway_width highway =
     (if highway \<in> set [''motorway'', ''motorway_link''] then 1.2
      else if highway \<in> set [''trunk'', ''trunk_link'', ''primary'', ''primary_link''] then 1.0
      else if highway \<in> set [''secondary'', ''secondary_link''] then 0.8
      else if highway \<in> set [''tertiary'', ''tertiary_link''] then 0.6
      else 0.4)"

definition edge_width :: "edge_data \<Rightarrow> real" where
  "edge_width data =
     (case railway_value data of
        Some railway \<Rightarrow>
          if railway \<noteq> [] then rail_width railway
          else highway_width (highway_value data)
      | None \<Rightarrow> highway_width (highway_value data))"

fun edge_widths_loop :: "(nat \<times> nat \<times> edge_data) list \<Rightarrow> real list \<Rightarrow> real list" where
  "edge_widths_loop [] edge_widths = edge_widths"
| "edge_widths_loop ((u, v, data) # rest) edge_widths =
     edge_widths_loop rest (edge_widths @ [edge_width data])"

definition get_edge_widths_by_type :: "graph \<Rightarrow> real list" where
  "get_edge_widths_by_type g = edge_widths_loop (edges g) []"

subsection \<open>Crop limits\<close>

text \<open>
  Lines 183-191: the half extents after the cut, as the pair \<open>(half_x, half_y)\<close>.
\<close>

definition crop_half_extents :: "real \<Rightarrow> real \<Rightarrow> real \<times> real" where
  "crop_half_extents dist_m aspect =
     (let half_x = dist_m; half_y = dist_m in
      if aspect > 1 then (half_x, half_x / aspect)
      else (half_y * aspect, half_y))"

text \<open>
  \<open>get_crop_limits\<close>.  The projection of the centre into the graph's CRS is OSMnx's; it is
  the parameter \<open>project_geometry\<close>, from a CRS and a \<open>(lon, lat)\<close> point to \<open>(x, y)\<close>.
  The figure is given by its size in inches; \<open>dist_m\<close> is the source's \<open>dist\<close>.  A figure height of zero gives an IEEE
  infinity in the source and is outside the idealisation; the theorems that depend on the
  quotient say that the height is not zero.
\<close>

definition get_crop_limits ::
  "(string \<Rightarrow> real \<times> real \<Rightarrow> real \<times> real) \<Rightarrow> graph \<Rightarrow> real \<times> real \<Rightarrow> real \<times> real \<Rightarrow> real \<Rightarrow> limits" where
  "get_crop_limits project_geometry g_proj center_lat_lon fig_size dist_m =
     (let (lat, lon) = center_lat_lon;
          (center_x, center_y) = project_geometry (crs g_proj) (lon, lat);
          (fig_width, fig_height) = fig_size;
          aspect = fig_width / fig_height;
          (half_x, half_y) = crop_half_extents dist_m aspect
      in ((center_x - half_x, center_x + half_x), (center_y - half_y, center_y + half_y)))"

text \<open>The half extents and the width/height ratio of a pair of limits.\<close>

definition half_width :: "limits \<Rightarrow> real" where
  "half_width lims = (snd (fst lims) - fst (fst lims)) / 2"

definition half_height :: "limits \<Rightarrow> real" where
  "half_height lims = (snd (snd lims) - fst (snd lims)) / 2"

definition limits_ratio :: "limits \<Rightarrow> real" where
  "limits_ratio lims =
     (snd (fst lims) - fst (fst lims)) / (snd (snd lims) - fst (snd lims))"

section \<open>poster\_text.py\<close>

text \<open>
  The loop of \<open>is_latin_script\<close> over the characters, with the two counters
  \<open>(latin_count, total_alpha)\<close>.  \<open>str.isalpha\<close> is Python's (the Unicode database) and
  is a parameter; \<open>ord\<close> is the identity on code points.
\<close>

fun count_alpha :: "(codepoint \<Rightarrow> bool) \<Rightarrow> ustring \<Rightarrow> nat \<times> nat \<Rightarrow> nat \<times> nat" where
  "count_alpha isalpha [] (latin_count, total_alpha) = (latin_count, total_alpha)"
| "count_alpha isalpha (ch # rest) (latin_count, total_alpha) =
     (if isalpha ch then
        (if ch < 0x250 then count_alpha isalpha rest (latin_count + 1, total_alpha + 1)
         else count_alpha isalpha rest (latin_count, total_alpha + 1))
      else count_alpha isalpha rest (latin_count, total_alpha))"

definition is_latin_script :: "(codepoint \<Rightarrow> bool) \<Rightarrow> ustring \<Rightarrow> bool" where
  "is_latin_script isalpha text =
     (if text = [] then True
      else
        (let (latin_count, total_alpha) = count_alpha isalpha text (0, 0) in
         if total_alpha = 0 then True
         else real latin_count / real total_alpha > 0.8))"

section \<open>fetch\_data.py\<close>

text \<open>
  A row of a GeoDataFrame of features: the geometry type and the value of the
  \<open>railway\<close> column (\<open>None\<close> for a missing value).
\<close>

record feature =
  geom_type :: string
  railway_tag :: "string option"

type_synonym features = "feature list"

type_synonym tag_filter = "(string \<times> tagval) list"

text \<open>
  The entries of the cache, one map per kind of payload, keyed by the parts of the key
  strings \<open>graph_{lat}_{lon}_{dist}\<close> and \<open>{name}_{lat}_{lon}_{dist}_{tag_str}\<close>.
\<close>

record cache_store =
  graph_entries :: "real \<times> real \<times> real \<rightharpoonup> graph"
  feature_entries :: "string \<times> real \<times> real \<times> real \<times> string \<rightharpoonup> features"

datatype cache_key =
    GraphKey real real real
  | FeaturesKey string real real real string

text \<open>
  Modelled from the spec: \<open>cache_get\<close> of the module \<open>cache\<close>, which is not among the
  sources, read under a graph key.  By section 4.1 of the spec \<open>get\<close> returns the stored
  payload or absent, and a graph reads back as a graph.
\<close>

definition cache_get_graph :: "cache_store \<Rightarrow> real \<times> real \<times> real \<Rightarrow> graph option" where
  "cache_get_graph store key = graph_entries store key"

text \<open>
  Modelled from the spec: \<open>cache_get\<close> of the module \<open>cache\<close>, read under a features key;
  as above.
\<close>

definition cache_get_features ::
  "cache_store \<Rightarrow> string \<times> real \<times> real \<times> real \<times> string \<Rightarrow> features option" where
  "cache_get_features store key = feature_entries store key"

text \<open>
  What the code calls and does not define: the OSMnx requests and projections, Python's
  \<open>str.isalpha\<close>, \<open>str.upper\<close> and \<open>str.lower\<close>, and, of the module \<open>cache\<close>,
  \<open>normalize_tags\<close> and the outcome of \<open>cache_set\<close> (\<open>cache_set_error\<close>: no exception,
  \<open>CacheError\<close>, or another one).  A call that the source wraps in \<open>try\<close> returns an
  exception or a value; the others are taken to return.  \<open>util_THEME\<close> is \<open>THEME\<close> as
  \<open>poster_util\<close> imports it from \<open>themes\<close>.
\<close>

record externals =
  graph_from_point :: "real \<times> real \<Rightarrow> real \<Rightarrow> py_error + graph"
  features_from_point :: "real \<times> real \<Rightarrow> real \<Rightarrow> tag_filter \<Rightarrow> py_error + features"
  cache_set_error :: "cache_key \<Rightarrow> py_error option"
  normalize_tags :: "tag_filter \<Rightarrow> string"
  project_graph :: "graph \<Rightarrow> graph"
  project_geometry :: "string \<Rightarrow> real \<times> real \<Rightarrow> real \<times> real"
  project_gdf :: "features \<Rightarrow> py_error + features"
  to_crs :: "string \<Rightarrow> features \<Rightarrow> features"
  isalpha :: "codepoint \<Rightarrow> bool"
  upper :: "ustring \<Rightarrow> ustring"
  lower :: "string \<Rightarrow> string"
  util_THEME :: theme

text \<open>
  The state the fetches read and write: the cache, and the remote requests made so far
  (oldest first).  The prints and the sleeps are left out.
\<close>

datatype remote_call =
    GraphRequest "real \<times> real" real
  | FeaturesRequest "real \<times> real" real tag_filter

record io_state =
  cache :: cache_store
  requests :: "remote_call list"

text \<open>
  The body of the \<open>try\<close> of \<open>fetch_graph\<close> (lines 31-38): the request, then the cache
  write, whose \<open>CacheError\<close> is caught and printed; any other exception leaves the body.
\<close>

definition fetch_graph_try ::
  "externals \<Rightarrow> real \<times> real \<Rightarrow> real \<Rightarrow> io_state \<Rightarrow> (py_error + graph) \<times> io_state" where
  "fetch_graph_try env point dist_m st =
     (let (lat, lon) = point;
          st1 = st\<lparr>requests := requests st @ [GraphRequest point dist_m]\<rparr>
      in case graph_from_point env point dist_m of
           Inl e \<Rightarrow> (Inl e, st1)
         | Inr g \<Rightarrow>
             (case cache_set_error env (GraphKey lat lon dist_m) of
                None \<Rightarrow>
                  (Inr g,
                   st1\<lparr>cache := (cache st1)
                     \<lparr>graph_entries := (graph_entries (cache st1))((lat, lon, dist_m) \<mapsto> g)\<rparr>\<rparr>)
              | Some CacheError \<Rightarrow> (Inr g, st1)
              | Some e \<Rightarrow> (Inl e, st1)))"

text \<open>
  \<open>fetch_graph\<close>: a cached graph is returned without a request; \<open>except Exception\<close>
  turns every exception of the body into \<open>None\<close>.  The result is \<open>Inl\<close> for an
  exception that leaves the function.
\<close>

definition fetch_graph ::
  "externals \<Rightarrow> real \<times> real \<Rightarrow> real \<Rightarrow> io_state \<Rightarrow> (py_error + graph option) \<times> io_state" where
  "fetch_graph env point dist_m st =
     (let (lat, lon) = point in
      case cache_get_graph (cache st) (lat, lon, dist_m) of
        Some cached \<Rightarrow> (Inr (Some cached), st)
      | None \<Rightarrow>
          (case fetch_graph_try env point dist_m st of
             (Inr g, st1) \<Rightarrow> (Inr (Some g), st1)
           | (Inl e, st1) \<Rightarrow> (Inr None, st1)))"

text \<open>The same for \<open>fetch_features\<close> (lines 70-81).\<close>

definition fetch_features_try ::
  "externals \<Rightarrow> real \<times> real \<Rightarrow> real \<Rightarrow> tag_filter \<Rightarrow> string \<Rightarrow> io_state
     \<Rightarrow> (py_error + features) \<times> io_state" where
  "fetch_features_try env point dist_m tags name st =
     (let (lat, lon) = point;
          tag_str = normalize_tags env tags;
          st1 = st\<lparr>requests := requests st @ [FeaturesRequest point dist_m tags]\<rparr>
      in case features_from_point env point dist_m tags of
           Inl e \<Rightarrow> (Inl e, st1)
         | Inr data \<Rightarrow>
             (case cache_set_error env (FeaturesKey name lat lon dist_m tag_str) of
                None \<Rightarrow>
                  (Inr data,
                   st1\<lparr>cache := (cache st1)
                     \<lparr>feature_entries :=
                        (feature_entries (cache st1))((name, lat, lon, dist_m, tag_str) \<mapsto> data)\<rparr>\<rparr>)
              | Some CacheError \<Rightarrow> (Inr data, st1)
              | Some e \<Rightarrow> (Inl e, st1)))"

definition fetch_features ::
  "externals \<Rightarrow> real \<times> real \<Rightarrow> real \<Rightarrow> tag_filter \<Rightarrow> string \<Rightarrow> io_state
     \<Rightarrow> (py_error + features option) \<times> io_state" where
  "fetch_features env point dist_m tags name st =
     (let (lat, lon) = point;
          tag_str = normalize_tags env tags
      in case cache_get_features (cache st) (name, lat, lon, dist_m, tag_str) of
           Some cached \<Rightarrow> (Inr (Some cached), st)
         | None \<Rightarrow>
             (case fetch_features_try env point dist_m tags name st of
                (Inr data, st1) \<Rightarrow> (Inr (Some data), st1)
              | (Inl e, st1) \<Rightarrow> (Inr None, st1)))"

section \<open>map\_to\_poster\_main.py\<close>

subsection \<open>Arguments and draw commands\<close>

text \<open>The dict that \<open>load_fonts\<close> returns.\<close>

record font_files =
  bold :: string
  regular :: string
  light :: string

text \<open>The arguments of \<open>create_poster\<close>; \<open>dist_m\<close> is the argument \<open>dist\<close>.\<close>

record request =
  city :: ustring
  country :: ustring
  point :: "real \<times> real"
  dist_m :: real
  output_file :: string
  output_format :: string
  text_options :: string
  width :: real
  height :: real
  country_label :: "ustring option"
  name_label :: "ustring option"
  display_city :: "ustring option"
  display_country :: "ustring option"
  fonts :: "font_files option"

text \<open>
  \<open>FontProperties\<close>: a font file with a size, or a family with a weight and a size.
\<close>

datatype font_props =
    FontFile string real
  | FontFamily string string real

text \<open>
  A text to draw: a name as it is, or the coordinate line with the two numbers that are
  formatted and the two hemisphere letters.
\<close>

datatype label =
    Name ustring
  | Coords real string real string

text \<open>
  The calls on the matplotlib figure and axes, in the order they are made.  They are taken
  to return.  \<open>PlotRailGroup\<close> is \<open>group.plot(ax=ax, color=color, edgecolor="none",
  zorder=1)\<close>: the call has a colour and no line width.
\<close>

datatype draw =
    Subplots real real string
  | PlotPolygons features string real
  | PlotGraph graph "string list" "real list" string
  | PlotRailGroup string features "string option"
  | SetAspectEqual
  | SetXlim "real \<times> real"
  | SetYlim "real \<times> real"
  | GradientFade string string
  | AxText real real label string "real option" font_props
  | AxLine real string real
  | SaveFig string string "nat option"

subsection \<open>Helpers of the model\<close>

text \<open>Sequencing of steps that may raise.\<close>

definition and_then :: "'e + 'a \<Rightarrow> ('a \<Rightarrow> 'e + 'b) \<Rightarrow> 'e + 'b" where
  "and_then m f = (case m of Inl e \<Rightarrow> Inl e | Inr x \<Rightarrow> f x)"

text \<open>\<open>THEME[key]\<close>.\<close>

definition theme_item :: "theme \<Rightarrow> string \<Rightarrow> py_error + string" where
  "theme_item THEME key = (case THEME key of None \<Rightarrow> Inl (KeyError key) | Some c \<Rightarrow> Inr c)"

text \<open>\<open>a or b\<close> on values that are a string or \<open>None\<close>.\<close>

definition py_or :: "ustring option \<Rightarrow> ustring option \<Rightarrow> ustring option" where
  "py_or a b = (case a of None \<Rightarrow> b | Some s \<Rightarrow> if s \<noteq> [] then Some s else b)"

text \<open>\<open>"  ".join(list(s))\<close>; 32 is the space.\<close>

fun join_spaced :: "ustring \<Rightarrow> ustring" where
  "join_spaced [] = []"
| "join_spaced [c] = [c]"
| "join_spaced (c # d # rest) = c # 32 # 32 # join_spaced (d # rest)"

subsection \<open>Fetching (lines 54-92)\<close>

definition water_tags :: tag_filter where
  "water_tags =
     [(''natural'', Lst [''water'', ''bay'', ''strait'']), (''waterway'', Str ''riverbank'')]"

definition parks_tags :: tag_filter where
  "parks_tags = [(''leisure'', Str ''park''), (''landuse'', Str ''grass'')]"

definition railways_tags :: tag_filter where
  "railways_tags =
     [(''railway'', Lst [''rail'', ''subway'', ''tram'', ''light_rail'', ''narrow_gauge'',
        ''monorail'', ''service'', ''yard'', ''siding''])]"

text \<open>Line 55; the division raises when the smaller dimension is zero.\<close>

definition compensated_dist :: "real \<Rightarrow> real \<Rightarrow> real \<Rightarrow> py_error + real" where
  "compensated_dist dist_arg height_arg width_arg =
     (if min height_arg width_arg = 0 then Inl ZeroDivisionError
      else Inr (dist_arg * (max height_arg width_arg / min height_arg width_arg) / 4))"

record map_data =
  fetched_dist :: real
  fetched_graph :: graph
  fetched_water :: "features option"
  fetched_parks :: "features option"
  fetched_railways :: "features option"

definition fetch_map_data ::
  "externals \<Rightarrow> request \<Rightarrow> io_state \<Rightarrow> (py_error + map_data) \<times> io_state" where
  "fetch_map_data env rq st =
     (case compensated_dist (dist_m rq) (height rq) (width rq) of
        Inl e \<Rightarrow> (Inl e, st)
      | Inr cd \<Rightarrow>
     (case fetch_graph env (point rq) cd st of
        (Inl e, st1) \<Rightarrow> (Inl e, st1)
      | (Inr None, st1) \<Rightarrow>
          (Inl (RuntimeError ''Failed to retrieve street network data.''), st1)
      | (Inr (Some g), st1) \<Rightarrow>
     (case fetch_features env (point rq) cd water_tags ''water'' st1 of
        (Inl e, st2) \<Rightarrow> (Inl e, st2)
      | (Inr water, st2) \<Rightarrow>
     (case fetch_features env (point rq) cd parks_tags ''parks'' st2 of
        (Inl e, st3) \<Rightarrow> (Inl e, st3)
      | (Inr parks, st3) \<Rightarrow>
     (case fetch_features env (point rq) cd railways_tags ''railways'' st3 of
        (Inl e, st4) \<Rightarrow> (Inl e, st4)
      | (Inr railways, st4) \<Rightarrow>
          (Inr \<lparr>fetched_dist = cd, fetched_graph = g, fetched_water = water,
                 fetched_parks = parks, fetched_railways = railways\<rparr>, st4))))))"

subsection \<open>Layers (lines 94-172)\<close>

text \<open>
  \<open>try: ox.projection.project_gdf(x)  except Exception: x.to_crs(g_proj.graph["crs"])\<close>.
\<close>

definition project_layer :: "externals \<Rightarrow> graph \<Rightarrow> features \<Rightarrow> features" where
  "project_layer env g_proj fs =
     (case project_gdf env fs of
        Inr projected \<Rightarrow> projected
      | Inl e \<Rightarrow> to_crs env (crs g_proj) fs)"

text \<open>Lines 108-115 and 117-124: the water and the parks polygons.\<close>

definition polygon_layer ::
  "externals \<Rightarrow> theme \<Rightarrow> graph \<Rightarrow> features option \<Rightarrow> string \<Rightarrow> real \<Rightarrow> py_error + draw list" where
  "polygon_layer env THEME g_proj layer role zorder =
     (case layer of
        None \<Rightarrow> Inr []
      | Some fs \<Rightarrow>
          if fs = [] then Inr []
          else
            (let polys = filter (\<lambda>f. geom_type f \<in> set [''Polygon'', ''MultiPolygon'']) fs in
             if polys = [] then Inr []
             else
               (let projected = project_layer env g_proj polys in
                and_then (theme_item THEME role)
                  (\<lambda>facecolor. Inr [PlotPolygons projected facecolor zorder]))))"

text \<open>
  Lines 149-163: the key given to \<open>THEME.get\<close> and the local \<open>width\<close> of a group of
  railway lines.
\<close>

definition rail_group_style :: "string \<Rightarrow> string \<times> real" where
  "rail_group_style railway_type =
     (if railway_type \<in> set [''rail'', ''subway''] then (''rail_heavy'', 1.0)
      else if railway_type \<in> set [''light_rail'', ''tram''] then (''rail_light'', 0.7)
      else if railway_type \<in> set [''narrow_gauge'', ''funicular'', ''monorail'']
        then (''rail_special'', 0.6)
      else if railway_type \<in> set [''service'', ''yard'', ''siding''] then (''rail_service'', 0.4)
      else (''rail_default'', 0.5))"

text \<open>
  \<open>rail_lines.groupby("railway")\<close>: one group per value of the column, the keys in
  ascending order, the rows without a value dropped.
\<close>

definition rail_groups :: "features \<Rightarrow> (string \<times> features) list" where
  "rail_groups rail_lines =
     map (\<lambda>k. (k, filter (\<lambda>f. railway_tag f = Some k) rail_lines))
       (sort (remdups (List.map_filter railway_tag rail_lines)))"

text \<open>Line 164 for one group: \<open>THEME.get\<close> gives \<open>None\<close> for a missing key.\<close>

definition plot_rail_group :: "theme \<Rightarrow> string \<times> features \<Rightarrow> draw" where
  "plot_rail_group THEME grp =
     (let (railway_type, group) = grp;
          (role, line_width) = rail_group_style railway_type;
          color = THEME role
      in PlotRailGroup railway_type group color)"

text \<open>Lines 141-164.\<close>

definition rail_layer :: "externals \<Rightarrow> theme \<Rightarrow> graph \<Rightarrow> features option \<Rightarrow> draw list" where
  "rail_layer env THEME g_proj railways =
     (case railways of
        None \<Rightarrow> []
      | Some fs \<Rightarrow>
          if fs = [] then []
          else
            (let rail_lines =
                   filter (\<lambda>f. geom_type f \<in> set [''LineString'', ''MultiLineString'']) fs in
             if rail_lines = [] then []
             else map (plot_rail_group THEME) (rail_groups (project_layer env g_proj rail_lines))))"

subsection \<open>Typography (lines 174-406)\<close>

definition base_main :: real where "base_main = 60"
definition base_sub :: real where "base_sub = 22"
definition base_coords :: real where "base_coords = 14"
definition base_attr :: real where "base_attr = 8"

text \<open>Line 176.\<close>

definition scale_factor :: "real \<Rightarrow> real \<Rightarrow> real" where
  "scale_factor height_arg width_arg = min height_arg width_arg / 12.0"

text \<open>Lines 220-228: \<open>adjusted_font_size\<close> from the scale factor and \<open>len(display_city)\<close>.\<close>

definition adjusted_font_size :: "real \<Rightarrow> nat \<Rightarrow> real" where
  "adjusted_font_size sf city_char_count =
     (let base_adjusted_main = base_main * sf in
      if city_char_count > 10 then
        (let length_factor = 10 / real city_char_count in
         max (base_adjusted_main * length_factor) (10 * sf))
      else base_adjusted_main)"

text \<open>Lines 264-270 (and 337-343, 367-373).\<close>

definition coords_label :: "real \<times> real \<Rightarrow> label" where
  "coords_label pt =
     (let (lat, lon) = pt in
      Coords (if lat \<ge> 0 then lat else \<bar>lat\<bar>) (if lat \<ge> 0 then ''N'' else ''S'')
        lon (if lon < 0 then ''W'' else ''E''))"

text \<open>Lines 49-50.\<close>

definition shown_city :: "request \<Rightarrow> ustring" where
  "shown_city rq =
     (case py_or (display_city rq) (name_label rq) of
        None \<Rightarrow> city rq
      | Some s \<Rightarrow> if s \<noteq> [] then s else city rq)"

definition shown_country :: "request \<Rightarrow> ustring" where
  "shown_country rq =
     (case py_or (display_country rq) (country_label rq) of
        None \<Rightarrow> country rq
      | Some s \<Rightarrow> if s \<noteq> [] then s else country rq)"

text \<open>Lines 210-216.\<close>

definition spaced_city :: "externals \<Rightarrow> ustring \<Rightarrow> ustring" where
  "spaced_city env shown =
     (if is_latin_script (isalpha env) shown then join_spaced (upper env shown) else shown)"

text \<open>Lines 230-237.\<close>

definition font_main_adjusted :: "font_files option \<Rightarrow> real \<Rightarrow> font_props" where
  "font_main_adjusted active_fonts font_size =
     (case active_fonts of
        Some files \<Rightarrow> FontFile (bold files) font_size
      | None \<Rightarrow> FontFamily ''monospace'' ''bold'' font_size)"

text \<open>
  Lines 239-386: the four \<open>if\<close> blocks, one after the other; \<open>clear_all\<close> draws nothing.
\<close>

definition text_block ::
  "string \<Rightarrow> ustring \<Rightarrow> ustring \<Rightarrow> real \<times> real \<Rightarrow> string \<Rightarrow> font_props \<Rightarrow> font_props \<Rightarrow> font_props
     \<Rightarrow> real \<Rightarrow> draw list" where
  "text_block options spaced country_upper pt text_color font_main font_sub font_coords sf =
     (if options = ''keep_all'' then
        [AxText 0.5 0.14 (Name spaced) text_color None font_main,
         AxText 0.5 0.10 (Name country_upper) text_color None font_sub,
         AxText 0.5 0.07 (coords_label pt) text_color (Some 0.7) font_coords,
         AxLine 0.125 text_color (1 * sf)]
      else [])
     @ (if options = ''no_coords'' then
        [AxText 0.5 0.14 (Name spaced) text_color None font_main,
         AxText 0.5 0.10 (Name country_upper) text_color None font_sub,
         AxLine 0.125 text_color (1 * sf)]
      else [])
     @ (if options = ''no_country'' then
        [AxText 0.5 0.14 (Name spaced) text_color None font_main,
         AxText 0.5 0.10 (coords_label pt) text_color (Some 0.7) font_coords,
         AxLine 0.125 text_color (1 * sf)]
      else [])
     @ (if options = ''no_city_country'' then
        [AxText 0.5 0.14 (coords_label pt) text_color (Some 0.7) font_main]
      else [])"

text \<open>
  The attribution line, as code points (169 is the copyright sign).
\<close>

definition attribution_text :: ustring where
  "attribution_text =
     [169, 32, 79, 112, 101, 110, 83, 116, 114, 101, 101, 116, 77, 97, 112, 32,
      99, 111, 110, 116, 114, 105, 98, 117, 116, 111, 114, 115]"

text \<open>
  Lines 174-406.  Every text call reads \<open>THEME["text"]\<close>, and the attribution is
  always drawn, so the key is read once here.
\<close>

definition typography ::
  "externals \<Rightarrow> theme \<Rightarrow> font_files option \<Rightarrow> request \<Rightarrow> py_error + draw list" where
  "typography env THEME FONTS rq =
     (let sf = scale_factor (height rq) (width rq);
          active_fonts = (case fonts rq of Some files \<Rightarrow> Some files | None \<Rightarrow> FONTS);
          font_sub =
            (case active_fonts of
               Some files \<Rightarrow> FontFile (light files) (base_sub * sf)
             | None \<Rightarrow> FontFamily ''monospace'' ''normal'' (base_sub * sf));
          font_coords =
            (case active_fonts of
               Some files \<Rightarrow> FontFile (regular files) (base_coords * sf)
             | None \<Rightarrow> FontFamily ''monospace'' ''normal'' (base_coords * sf));
          font_main =
            font_main_adjusted active_fonts
              (adjusted_font_size sf (length (shown_city rq)));
          font_attr =
            (case FONTS of
               Some files \<Rightarrow> FontFile (light files) 8
             | None \<Rightarrow> FontFamily ''monospace'' ''normal'' 8)
      in and_then (theme_item THEME ''text'')
           (\<lambda>text_color.
              Inr (text_block (text_options rq) (spaced_city env (shown_city rq))
                     (upper env (shown_country rq)) (point rq) text_color
                     font_main font_sub font_coords sf
                   @ [AxText 0.98 0.02 (Name attribution_text) text_color (Some 0.5) font_attr])))"

subsection \<open>create\_poster\<close>

text \<open>Lines 94-425, once the data is fetched.\<close>

definition render ::
  "externals \<Rightarrow> theme \<Rightarrow> font_files option \<Rightarrow> request \<Rightarrow> map_data \<Rightarrow> py_error + draw list" where
  "render env THEME FONTS rq md =
     and_then (theme_item THEME ''bg'') (\<lambda>bg.
       let g_proj = project_graph env (fetched_graph md);
           (crop_xlim, crop_ylim) =
             get_crop_limits (project_geometry env) g_proj (point rq)
               (width rq, height rq) (fetched_dist md)
       in
     and_then (polygon_layer env THEME g_proj (fetched_water md) ''water'' 0.5) (\<lambda>water_draws.
     and_then (polygon_layer env THEME g_proj (fetched_parks md) ''parks'' 0.8) (\<lambda>parks_draws.
     and_then (get_edge_colors_by_type (util_THEME env) g_proj) (\<lambda>edge_colors.
       let edge_widths = get_edge_widths_by_type g_proj;
           rail_draws = rail_layer env THEME g_proj (fetched_railways md)
       in
     and_then (theme_item THEME ''gradient_color'') (\<lambda>gradient_color.
     and_then (typography env THEME FONTS rq) (\<lambda>text_draws.
       let fmt = lower env (output_format rq);
           dpi = (if fmt = ''png'' then Some 300 else None)
       in
       Inr ([Subplots (width rq) (height rq) bg]
            @ water_draws @ parks_draws
            @ [PlotGraph g_proj edge_colors edge_widths bg]
            @ rail_draws
            @ [SetAspectEqual, SetXlim crop_xlim, SetYlim crop_ylim,
               GradientFade gradient_color ''bottom'', GradientFade gradient_color ''top'']
            @ text_draws
            @ [SaveFig (output_file rq) fmt dpi])))))))"

definition create_poster ::
  "externals \<Rightarrow> theme \<Rightarrow> font_files option \<Rightarrow> request \<Rightarrow> io_state
     \<Rightarrow> (py_error + draw list) \<times> io_state" where
  "create_poster env THEME FONTS rq st =
     (case fetch_map_data env rq st of
        (Inl e, st1) \<Rightarrow> (Inl e, st1)
      | (Inr md, st1) \<Rightarrow> (render env THEME FONTS rq md, st1))"

text \<open>The limits that a list of draw commands sets.\<close>

fun xlim_of :: "draw list \<Rightarrow> (real \<times> real) option" where
  "xlim_of [] = None"
| "xlim_of (SetXlim l # ds) = Some l"
| "xlim_of (d # ds) = xlim_of ds"

fun ylim_of :: "draw list \<Rightarrow> (real \<times> real) option" where
  "ylim_of [] = None"
| "ylim_of (SetYlim l # ds) = Some l"
| "ylim_of (d # ds) = ylim_of ds"

section \<open>The specification's words\<close>

text \<open>
  The viewport as section 4.4 of the spec computes it: a square half extent equal to the
  radius on both axes; the vertical one shrunk to \<open>radius / aspect\<close> when the figure is
  wider than tall, the horizontal one shrunk to \<open>radius * aspect\<close> when it is taller than
  wide, both left at the radius when the aspect is 1.
\<close>

definition spec_viewport :: "real \<times> real \<Rightarrow> real \<Rightarrow> real \<Rightarrow> limits" where
  "spec_viewport center radius aspect =
     (let half_x = (if aspect < 1 then radius * aspect else radius);
          half_y = (if aspect > 1 then radius / aspect else radius)
      in ((fst center - half_x, fst center + half_x),
          (snd center - half_y, snd center + half_y)))"

text \<open>The style table of section 6 of the spec: colour role and width, row by row.\<close>

definition style_table :: "(string \<times> real) list" where
  "style_table =
     [(''rail_heavy'', 1.0), (''rail_light'', 0.8), (''rail_special'', 0.6),
      (''rail_service'', 0.4), (''rail_default'', 0.5),
      (''road_motorway'', 1.2), (''road_primary'', 1.0), (''road_secondary'', 0.8),
      (''road_tertiary'', 0.6), (''road_residential'', 0.4), (''road_default'', 0.4)]"


text \<open>The keys that the edge colours read, and the keys that \<open>create_poster\<close> indexes.\<close>

definition edge_theme_keys :: "string list" where
  "edge_theme_keys = map fst style_table"

definition main_theme_keys :: "string list" where
  "main_theme_keys = [''bg'', ''water'', ''parks'', ''gradient_color'', ''text'']"

section \<open>A small world to run the model in\<close>

text \<open>
  A network of two edges, a service that returns it and has no features, a theme with
  every key, and the request of the spec's end-to-end scenario.
\<close>

definition paris_graph :: graph where
  "paris_graph =
     \<lparr>edges = [(1, 2, [''highway'' \<mapsto> Str ''primary'']),
               (2, 3, [''railway'' \<mapsto> Lst [''subway'', ''service'']])],
      crs = ''EPSG:4326''\<rparr>"

definition demo_theme :: theme where
  "demo_theme =
     map_of
       [(''bg'', ''#FFFFFF''), (''text'', ''#000000''), (''gradient_color'', ''#FFFFFF''),
        (''water'', ''#C0C0C0''), (''parks'', ''#F0F0F0''),
        (''rail_heavy'', ''#101010''), (''rail_light'', ''#202020''),
        (''rail_special'', ''#303030''), (''rail_service'', ''#404040''),
        (''rail_default'', ''#505050''),
        (''road_motorway'', ''#0A0A0A''), (''road_primary'', ''#1A1A1A''),
        (''road_secondary'', ''#2A2A2A''), (''road_tertiary'', ''#3A3A3A''),
        (''road_residential'', ''#4A4A4A''), (''road_default'', ''#5A5A5A'')]"

text \<open>
  A part of \<open>str.isalpha\<close>: the ASCII letters, the Arabic letters U+0620-U+064A, the Thai
  consonants U+0E01-U+0E2E and the CJK ideographs U+4E00-U+9FFF.
\<close>

definition some_letters :: "codepoint \<Rightarrow> bool" where
  "some_letters c =
     ((65 \<le> c \<and> c \<le> 90) \<or> (97 \<le> c \<and> c \<le> 122) \<or> (0x620 \<le> c \<and> c \<le> 0x64A)
      \<or> (0xE01 \<le> c \<and> c \<le> 0xE2E) \<or> (0x4E00 \<le> c \<and> c \<le> 0x9FFF))"

definition ascii_upper :: "ustring \<Rightarrow> ustring" where
  "ascii_upper s = map (\<lambda>c. if 97 \<le> c \<and> c \<le> 122 then c - 32 else c) s"

definition paris_env :: externals where
  "paris_env =
     \<lparr>graph_from_point = (\<lambda>p d. Inr paris_graph),
      features_from_point = (\<lambda>p d t. Inl (OtherException ''timeout'')),
      cache_set_error = (\<lambda>k. None),
      normalize_tags = (\<lambda>t. ''tags''),
      project_graph = (\<lambda>g. g\<lparr>crs := ''EPSG:32631''\<rparr>),
      project_geometry = (\<lambda>c p. (452000, 5411000)),
      project_gdf = (\<lambda>fs. Inr fs),
      to_crs = (\<lambda>c fs. fs),
      isalpha = some_letters,
      upper = ascii_upper,
      lower = (\<lambda>s. s),
      util_THEME = demo_theme\<rparr>"

definition offline_env :: externals where
  "offline_env = paris_env\<lparr>graph_from_point := (\<lambda>p d. Inl (OtherException ''timeout''))\<rparr>"


definition empty_io :: io_state where
  "empty_io =
     \<lparr>cache = \<lparr>graph_entries = Map.empty, feature_entries = Map.empty\<rparr>, requests = []\<rparr>"

definition paris_request :: request where
  "paris_request =
     \<lparr>city = [80, 97, 114, 105, 115], country = [70, 114, 97, 110, 99, 101],
      point = (48.8566, 2.3522), dist_m = 10000,
      output_file = ''posters/paris.png'', output_format = ''png'',
      text_options = ''keep_all'', width = 12, height = 16,
      country_label = None, name_label = None, display_city = None,
      display_country = None, fonts = None\<rparr>"

text \<open>Whether a draw command sets an axis limit.\<close>

fun sets_limits :: "draw \<Rightarrow> bool" where
  "sets_limits (SetXlim l) = True"
| "sets_limits (SetYlim l) = True"
| "sets_limits d = False"

section \<open>Crop geometry\<close>


lemma half_extents_of_crop:
  "half_width (get_crop_limits pg g (lat, lon) (w, h) d) = fst (crop_half_extents d (w / h))"
  "half_height (get_crop_limits pg g (lat, lon) (w, h) d) = snd (crop_half_extents d (w / h))"
  by (simp_all add: get_crop_limits_def half_width_def half_height_def Let_def split: prod.splits)

lemma limits_ratio_crop:
  "limits_ratio (get_crop_limits pg g (lat, lon) (w, h) d) =
     fst (crop_half_extents d (w / h)) / snd (crop_half_extents d (w / h))"
  by (simp add: get_crop_limits_def limits_ratio_def Let_def split: prod.splits)

lemma get_crop_limits_spec:
  "get_crop_limits pg g (lat, lon) (w, h) d = spec_viewport (pg (crs g) (lon, lat)) d (w / h)"
  by (cases "pg (crs g) (lon, lat)")
     (simp add: get_crop_limits_def spec_viewport_def crop_half_extents_def Let_def)

text \<open>
  C3.  The limits that \<open>get_crop_limits\<close> returns are the viewport of the spec's algorithm
  around the projected centre, for the aspect \<open>w / h\<close> of a figure whose height is not zero:
  for an aspect above 1 the horizontal half extent is the radius and the vertical one is
  \<open>radius / aspect\<close>; for an aspect below 1 the horizontal one is \<open>radius * aspect\<close> and the
  vertical one is the radius; for the aspect 1 both are the radius.
\<close>

theorem crop_limits_follow_algorithm:
  assumes "h \<noteq> 0"
  shows "get_crop_limits pg g (lat, lon) (w, h) d = spec_viewport (pg (crs g) (lon, lat)) d (w / h)
    \<and> (1 < w / h \<longrightarrow>
         half_width (get_crop_limits pg g (lat, lon) (w, h) d) = d
         \<and> half_height (get_crop_limits pg g (lat, lon) (w, h) d) = d / (w / h))
    \<and> (w / h < 1 \<longrightarrow>
         half_width (get_crop_limits pg g (lat, lon) (w, h) d) = d * (w / h)
         \<and> half_height (get_crop_limits pg g (lat, lon) (w, h) d) = d)
    \<and> (w / h = 1 \<longrightarrow>
         half_width (get_crop_limits pg g (lat, lon) (w, h) d) = d
         \<and> half_height (get_crop_limits pg g (lat, lon) (w, h) d) = d)"
proof -
  let ?L = "get_crop_limits pg g (lat, lon) (w, h) d"
  have a: "1 < w / h \<longrightarrow> half_width ?L = d \<and> half_height ?L = d / (w / h)"
    by (simp only: half_extents_of_crop) (simp add: crop_half_extents_def)
  have b: "w / h < 1 \<longrightarrow> half_width ?L = d * (w / h) \<and> half_height ?L = d"
    by (simp only: half_extents_of_crop) (simp add: crop_half_extents_def)
  have c: "w / h = 1 \<longrightarrow> half_width ?L = d \<and> half_height ?L = d"
    by (simp only: half_extents_of_crop) (simp add: crop_half_extents_def)
  from a b c get_crop_limits_spec [of pg g lat lon w h d] show ?thesis by blast
qed

theorem crop_limits_follow_algorithm_witness:
  "half_width (get_crop_limits (project_geometry paris_env) paris_graph (48.8566, 2.3522) (16, 12) 10000) = 10000
   \<and> half_height (get_crop_limits (project_geometry paris_env) paris_graph (48.8566, 2.3522) (16, 12) 10000) = 7500
   \<and> half_width (get_crop_limits (project_geometry paris_env) paris_graph (48.8566, 2.3522) (12, 16) 10000) = 7500
   \<and> half_height (get_crop_limits (project_geometry paris_env) paris_graph (48.8566, 2.3522) (12, 16) 10000) = 10000
   \<and> half_width (get_crop_limits (project_geometry paris_env) paris_graph (48.8566, 2.3522) (12, 12) 10000) = 10000
   \<and> half_height (get_crop_limits (project_geometry paris_env) paris_graph (48.8566, 2.3522) (12, 12) 10000) = 10000
   \<and> get_crop_limits (project_geometry paris_env) paris_graph (48.8566, 2.3522) (12, 16) 10000
       = ((444500, 459500), (5401000, 5421000))"
  using
    crop_limits_follow_algorithm [where h = 12 and w = 16 and d = 10000 and g = paris_graph
      and pg = "project_geometry paris_env" and lat = "48.8566" and lon = "2.3522"]
    crop_limits_follow_algorithm [where h = 16 and w = 12 and d = 10000 and g = paris_graph
      and pg = "project_geometry paris_env" and lat = "48.8566" and lon = "2.3522"]
    crop_limits_follow_algorithm [where h = 12 and w = 12 and d = 10000 and g = paris_graph
      and pg = "project_geometry paris_env" and lat = "48.8566" and lon = "2.3522"]
  by (simp add: spec_viewport_def paris_env_def half_width_def half_height_def)

text \<open>
  C4, as the code has it.  For a positive radius and a figure of positive width and height
  the ratio of the limits is the aspect of the figure, the larger half extent is the
  radius, and the smaller one is the radius times the smaller of \<open>aspect\<close> and
  \<open>1 / aspect\<close>, so it is at most the radius.
\<close>

theorem viewport_larger_extent_is_radius:
  assumes "0 < d" "0 < w" "0 < h"
  shows "limits_ratio (get_crop_limits pg g (lat, lon) (w, h) d) = w / h
    \<and> max (half_width (get_crop_limits pg g (lat, lon) (w, h) d))
          (half_height (get_crop_limits pg g (lat, lon) (w, h) d)) = d
    \<and> min (half_width (get_crop_limits pg g (lat, lon) (w, h) d))
          (half_height (get_crop_limits pg g (lat, lon) (w, h) d)) = d * min (w / h) (h / w)
    \<and> min (half_width (get_crop_limits pg g (lat, lon) (w, h) d))
          (half_height (get_crop_limits pg g (lat, lon) (w, h) d)) \<le> d"
proof (cases "1 < w / h")
  case True
  let ?L = "get_crop_limits pg g (lat, lon) (w, h) d"
  from True have e: "crop_half_extents d (w / h) = (d, d / (w / h))"
    by (simp add: crop_half_extents_def)
  have hx: "half_width ?L = d" and hy: "half_height ?L = d * (h / w)"
    by (simp_all add: half_extents_of_crop e)
  from True assms have "h / w < 1" by simp
  with True have m: "min (w / h) (h / w) = h / w" by simp
  from \<open>h / w < 1\<close> assms have "d * (h / w) \<le> d * 1"
    by (intro mult_left_mono) simp_all
  then have le: "d * (h / w) \<le> d" by simp
  have r: "limits_ratio ?L = w / h"
    using assms by (simp add: limits_ratio_crop e)
  from le have mx: "max d (d * (h / w)) = d" and mn: "min d (d * (h / w)) = d * (h / w)"
    by simp_all
  show ?thesis
    by (simp only: hx hy m mx mn r le)
next
  case False
  let ?L = "get_crop_limits pg g (lat, lon) (w, h) d"
  from False have e: "crop_half_extents d (w / h) = (d * (w / h), d)"
    by (simp add: crop_half_extents_def)
  have hx: "half_width ?L = d * (w / h)" and hy: "half_height ?L = d"
    by (simp_all add: half_extents_of_crop e)
  from False assms have "w / h \<le> 1" "1 \<le> h / w" by simp_all
  then have m: "min (w / h) (h / w) = w / h" by simp
  from \<open>w / h \<le> 1\<close> assms have "d * (w / h) \<le> d * 1"
    by (intro mult_left_mono) simp_all
  then have le: "d * (w / h) \<le> d" by simp
  have r: "limits_ratio ?L = w / h"
    using assms by (simp add: limits_ratio_crop e)
  from le have mx: "max (d * (w / h)) d = d" and mn: "min (d * (w / h)) d = d * (w / h)"
    by simp_all
  show ?thesis
    by (simp only: hx hy m mx mn r le)
qed

theorem viewport_larger_extent_is_radius_witness:
  "limits_ratio (get_crop_limits (project_geometry paris_env) paris_graph (48.8566, 2.3522) (12, 16) 10000) = 3 / 4
   \<and> max (half_width (get_crop_limits (project_geometry paris_env) paris_graph (48.8566, 2.3522) (12, 16) 10000))
         (half_height (get_crop_limits (project_geometry paris_env) paris_graph (48.8566, 2.3522) (12, 16) 10000)) = 10000
   \<and> min (half_width (get_crop_limits (project_geometry paris_env) paris_graph (48.8566, 2.3522) (12, 16) 10000))
         (half_height (get_crop_limits (project_geometry paris_env) paris_graph (48.8566, 2.3522) (12, 16) 10000)) = 7500"
  using viewport_larger_extent_is_radius [where d = 10000 and w = 12 and h = 16
    and g = paris_graph and pg = "project_geometry paris_env" and lat = "48.8566" and lon = "2.3522"]
  by simp

text \<open>
  The claim C4 as the spec states it fails: for the radius 10000 and the aspect 12/16 the
  smaller half extent is 7500, below the radius.
\<close>

theorem smaller_extent_below_radius:
  "min (half_width (get_crop_limits (project_geometry paris_env) paris_graph (48.8566, 2.3522) (12, 16) 10000))
       (half_height (get_crop_limits (project_geometry paris_env) paris_graph (48.8566, 2.3522) (12, 16) 10000)) = 7500
   \<and> min (half_width (get_crop_limits (project_geometry paris_env) paris_graph (48.8566, 2.3522) (12, 16) 10000))
       (half_height (get_crop_limits (project_geometry paris_env) paris_graph (48.8566, 2.3522) (12, 16) 10000)) < 10000"
  by (simp add: half_extents_of_crop crop_half_extents_def)

section \<open>Edge classification\<close>

lemma rail_row: "(rail_color_role r, rail_width r) \<in> set style_table"
  by (simp add: rail_color_role_def rail_width_def style_table_def)

lemma highway_row: "(highway_color_role r, highway_width r) \<in> set style_table"
  by (simp add: highway_color_role_def highway_width_def style_table_def)

lemma edge_row: "(edge_color_role d, edge_width d) \<in> set style_table"
  by (simp add: edge_color_role_def edge_width_def rail_row highway_row split: option.splits)






lemma edge_colors_loop_total:
  assumes "\<forall>k\<in>set edge_theme_keys. T k \<noteq> None"
  shows "edge_colors_loop T es acc =
           Inr (acc @ map (\<lambda>e. the (T (edge_color_role (snd (snd e))))) es)"
proof (induction es arbitrary: acc)
  case Nil
  show ?case by simp
next
  case (Cons e es)
  obtain u v d where e: "e = (u, v, d)" by (cases e)
  have "edge_color_role d \<in> set edge_theme_keys"
    using edge_row [of d] by (force simp: edge_theme_keys_def)
  with assms obtain c where c: "T (edge_color_role d) = Some c"
    by blast
  show ?case by (simp add: e c Cons.IH)
qed


text \<open>
  C2, as the code has it.  Every tag dict gets a colour role and a width that form a row
  of the style table.  When the value of \<open>railway\<close> (the string, or the first element of a
  list) is a string that is not empty, the role and the width are those of the rail table,
  whatever the \<open>highway\<close> entry is.  When there is no such value (the key is absent, the
  list is empty, or the string is empty) they are those of the highway table, for the
  value of \<open>highway\<close>: the string, the first element of a list, and \<open>unclassified\<close> for an
  absent key or an empty list.
\<close>

theorem rail_precedes_highway:
  "(edge_color_role d, edge_width d) \<in> set style_table
   \<and> (\<forall>r. railway_value d = Some r \<and> r \<noteq> [] \<longrightarrow>
         edge_color_role d = rail_color_role r \<and> edge_width d = rail_width r
         \<and> edge_color_role (d(''highway'' := hw)) = edge_color_role d
         \<and> edge_width (d(''highway'' := hw)) = edge_width d)
   \<and> (railway_value d = None \<or> railway_value d = Some [] \<longrightarrow>
         edge_color_role d = highway_color_role (highway_value d)
         \<and> edge_width d = highway_width (highway_value d))
   \<and> (d ''railway'' = None \<longrightarrow> railway_value d = None)
   \<and> (d ''railway'' = Some (Lst []) \<longrightarrow> railway_value d = None)
   \<and> (\<forall>x xs. d ''railway'' = Some (Lst (x # xs)) \<longrightarrow> railway_value d = Some x)
   \<and> (\<forall>x. d ''railway'' = Some (Str x) \<longrightarrow> railway_value d = Some x)
   \<and> (d ''highway'' = None \<longrightarrow> highway_value d = ''unclassified'')
   \<and> (d ''highway'' = Some (Lst []) \<longrightarrow> highway_value d = ''unclassified'')
   \<and> (\<forall>x xs. d ''highway'' = Some (Lst (x # xs)) \<longrightarrow> highway_value d = x)
   \<and> (\<forall>x. d ''highway'' = Some (Str x) \<longrightarrow> highway_value d = x)"
proof -
  have rv: "railway_value (d(''highway'' := hw)) = railway_value d"
    by (simp add: railway_value_def)
  have a: "\<forall>r. railway_value d = Some r \<and> r \<noteq> [] \<longrightarrow>
         edge_color_role d = rail_color_role r \<and> edge_width d = rail_width r
         \<and> edge_color_role (d(''highway'' := hw)) = edge_color_role d
         \<and> edge_width (d(''highway'' := hw)) = edge_width d"
    by (simp add: edge_color_role_def edge_width_def rv)
  have b: "railway_value d = None \<or> railway_value d = Some [] \<longrightarrow>
         edge_color_role d = highway_color_role (highway_value d)
         \<and> edge_width d = highway_width (highway_value d)"
    by (auto simp: edge_color_role_def edge_width_def)
  have c: "(d ''railway'' = None \<longrightarrow> railway_value d = None)
   \<and> (d ''railway'' = Some (Lst []) \<longrightarrow> railway_value d = None)
   \<and> (\<forall>x xs. d ''railway'' = Some (Lst (x # xs)) \<longrightarrow> railway_value d = Some x)
   \<and> (\<forall>x. d ''railway'' = Some (Str x) \<longrightarrow> railway_value d = Some x)"
    by (simp add: railway_value_def)
  have e: "(d ''highway'' = None \<longrightarrow> highway_value d = ''unclassified'')
   \<and> (d ''highway'' = Some (Lst []) \<longrightarrow> highway_value d = ''unclassified'')
   \<and> (\<forall>x xs. d ''highway'' = Some (Lst (x # xs)) \<longrightarrow> highway_value d = x)
   \<and> (\<forall>x. d ''highway'' = Some (Str x) \<longrightarrow> highway_value d = x)"
    by (simp add: highway_value_def)
  from edge_row [of d] a b c e show ?thesis by blast
qed

theorem rail_precedes_highway_witness:
  "edge_color_role [''railway'' \<mapsto> Lst [''subway'', ''service''], ''highway'' \<mapsto> Str ''primary'']
      = ''rail_heavy''
   \<and> edge_width [''railway'' \<mapsto> Lst [''subway'', ''service''], ''highway'' \<mapsto> Str ''primary''] = 1.0
   \<and> edge_color_role [''railway'' \<mapsto> Str ''miniature''] = ''rail_default''
   \<and> edge_width [''railway'' \<mapsto> Str ''miniature''] = 0.5
   \<and> edge_color_role [''railway'' \<mapsto> Lst [], ''highway'' \<mapsto> Lst [''primary'', ''secondary'']]
      = ''road_primary''
   \<and> edge_width [''railway'' \<mapsto> Lst [], ''highway'' \<mapsto> Lst [''primary'', ''secondary'']] = 1.0
   \<and> edge_color_role Map.empty = ''road_residential''
   \<and> edge_width Map.empty = 0.4
   \<and> edge_color_role [''highway'' \<mapsto> Lst []] = ''road_residential''
   \<and> edge_color_role [''railway'' \<mapsto> Lst [[]], ''highway'' \<mapsto> Str ''trunk''] = ''road_primary''"
  using
    rail_precedes_highway [where d = "[''railway'' \<mapsto> Lst [''subway'', ''service''],
      ''highway'' \<mapsto> Str ''primary'']" and hw = None]
    rail_precedes_highway [where d = "[''railway'' \<mapsto> Str ''miniature'']" and hw = None]
    rail_precedes_highway [where d = "[''railway'' \<mapsto> Lst [],
      ''highway'' \<mapsto> Lst [''primary'', ''secondary'']]" and hw = None]
    rail_precedes_highway [where d = Map.empty and hw = None]
    rail_precedes_highway [where d = "[''highway'' \<mapsto> Lst []]" and hw = None]
    rail_precedes_highway [where d = "[''railway'' \<mapsto> Lst [[]], ''highway'' \<mapsto> Str ''trunk'']"
      and hw = None]
  by (simp add: railway_value_def highway_value_def rail_color_role_def rail_width_def
      highway_color_role_def highway_width_def)

text \<open>
  The claim C2 as the spec states it fails for a \<open>railway\<close> tag that is present with the
  empty string as its value: \<open>if railway:\<close> is false for it, and the edge is classified by
  its \<open>highway\<close> tag, not by the rail table (whose default row is \<open>rail_default\<close>, 0.5).
\<close>

theorem empty_railway_is_classified_as_road:
  "edge_color_role [''railway'' \<mapsto> Str [], ''highway'' \<mapsto> Str ''motorway''] = ''road_motorway''
   \<and> edge_width [''railway'' \<mapsto> Str [], ''highway'' \<mapsto> Str ''motorway''] = 1.2
   \<and> rail_color_role [] = ''rail_default''
   \<and> rail_width [] = 0.5"
  by (simp add: edge_color_role_def edge_width_def railway_value_def highway_value_def
      highway_color_role_def highway_width_def rail_color_role_def rail_width_def)


lemma demo_theme_edges: "\<forall>k\<in>set edge_theme_keys. demo_theme k \<noteq> None"
  by (simp add: edge_theme_keys_def style_table_def demo_theme_def)



section \<open>Railway feature lines\<close>

text \<open>
  C5.  For a group of \<open>tram\<close> or \<open>light_rail\<close> lines \<open>create_poster\<close> takes the role
  \<open>rail_light\<close> and the width 0.7, where \<open>get_edge_widths_by_type\<close> and the style table have
  0.8; and the group is plotted with the colour alone.
\<close>

theorem light_rail_group_width:
  "rail_group_style ''tram'' = (''rail_light'', 0.7)
   \<and> rail_group_style ''light_rail'' = (''rail_light'', 0.7)
   \<and> snd (rail_group_style ''tram'') \<noteq> 0.8
   \<and> rail_width ''tram'' = 0.8
   \<and> map_of style_table ''rail_light'' = Some 0.8
   \<and> plot_rail_group T (''tram'', grp) = PlotRailGroup ''tram'' grp (T ''rail_light'')"
  by (simp add: rail_group_style_def rail_width_def plot_rail_group_def style_table_def)

section \<open>Script detection\<close>

lemma count_alpha_filter:
  "count_alpha al s (l, t) =
     (l + length (filter (\<lambda>c. c < 0x250) (filter al s)), t + length (filter al s))"
  by (induction s arbitrary: l t) simp_all

lemma ratio_above_80:
  assumes "0 < t"
  shows "(real l / real t > 0.8) = (100 * l > 80 * t)"
proof -
  have "(real l / real t > 0.8) = (real (80 * t) < real (100 * l))"
    using assms by (simp add: field_simps)
  also have "\<dots> = (80 * t < 100 * l)" by (rule of_nat_less_iff)
  finally show ?thesis .
qed

lemma is_latin_script_iff:
  "is_latin_script al s =
     (filter al s = [] \<or>
      100 * length (filter (\<lambda>c. c < 0x250) (filter al s)) > 80 * length (filter al s))"
proof (cases "filter al s = []")
  case True
  then show ?thesis by (simp add: is_latin_script_def count_alpha_filter)
next
  case False
  then have t: "0 < length (filter al s)" and ne: "s \<noteq> []" by auto
  have "is_latin_script al s =
          (real (length (filter (\<lambda>c. c < 0x250) (filter al s))) / real (length (filter al s))
             > 0.8)"
    using t ne by (simp add: is_latin_script_def count_alpha_filter del: filter_filter)
  also have "\<dots> =
      (100 * length (filter (\<lambda>c. c < 0x250) (filter al s)) > 80 * length (filter al s))"
    using t by (rule ratio_above_80)
  finally show ?thesis using False by simp
qed

text \<open>
  C8.  For every \<open>isalpha\<close> and every string, \<open>is_latin_script\<close> holds exactly when the
  string has no alphabetic character or more than 80 in 100 of its alphabetic characters
  have a code point below U+0250.  So the empty string and a string without letters are
  Latin, a string of Latin letters is Latin, and a string that is not empty and has only
  letters at or above U+0250 (the Han, Thai and Arabic letters are there) is not.
\<close>

theorem script_detection:
  "(is_latin_script al s \<longleftrightarrow>
      filter al s = [] \<or>
      100 * length (filter (\<lambda>c. c < 0x250) (filter al s)) > 80 * length (filter al s))
   \<and> is_latin_script al []
   \<and> ((\<forall>c\<in>set s. \<not> al c) \<longrightarrow> is_latin_script al s)
   \<and> (s \<noteq> [] \<and> (\<forall>c\<in>set s. al c \<and> c < 0x250) \<longrightarrow> is_latin_script al s)
   \<and> (s \<noteq> [] \<and> (\<forall>c\<in>set s. al c \<and> 0x250 \<le> c) \<longrightarrow> \<not> is_latin_script al s)"
proof -
  let ?A = "filter al s = []"
  let ?B = "100 * length (filter (\<lambda>c. c < 0x250) (filter al s)) > 80 * length (filter al s)"
  have iff: "is_latin_script al s \<longleftrightarrow> ?A \<or> ?B" by (rule is_latin_script_iff)
  have e: "is_latin_script al []" by (simp add: is_latin_script_def)
  have a: "(\<forall>c\<in>set s. \<not> al c) \<longrightarrow> ?A" by (simp add: filter_empty_conv)
  have b: "s \<noteq> [] \<and> (\<forall>c\<in>set s. al c \<and> c < 0x250) \<longrightarrow> ?B"
  proof
    assume h: "s \<noteq> [] \<and> (\<forall>c\<in>set s. al c \<and> c < 0x250)"
    then have "filter al s = s" "filter (\<lambda>c. c < 0x250) s = s"
      by (simp_all add: filter_id_conv)
    with h show ?B by (simp del: filter_filter)
  qed
  have c: "s \<noteq> [] \<and> (\<forall>c\<in>set s. al c \<and> 0x250 \<le> c) \<longrightarrow> \<not> ?A \<and> \<not> ?B"
  proof
    assume h: "s \<noteq> [] \<and> (\<forall>c\<in>set s. al c \<and> 0x250 \<le> c)"
    then have "filter al s = s" by (simp add: filter_id_conv)
    moreover from h have "filter (\<lambda>c. c < 0x250) s = []" by (auto simp: filter_empty_conv)
    ultimately show "\<not> ?A \<and> \<not> ?B" using h by (simp del: filter_filter)
  qed
  from iff e a b c show ?thesis by blast
qed

theorem script_detection_witness:
  "is_latin_script some_letters [80, 97, 114, 105, 115]
   \<and> is_latin_script some_letters [49, 50, 51]
   \<and> \<not> is_latin_script some_letters [0x4E2D, 0x6587]
   \<and> \<not> is_latin_script some_letters [0xE44, 0xE17, 0xE22]
   \<and> \<not> is_latin_script some_letters [0x639, 0x631, 0x628, 0x64A]
   \<and> is_latin_script some_letters [80, 97, 114, 105, 115, 0x4E2D]
   \<and> \<not> is_latin_script some_letters [80, 97, 114, 105, 0x4E2D]"
  using
    script_detection [of some_letters "[80, 97, 114, 105, 115]"]
    script_detection [of some_letters "[49, 50, 51]"]
    script_detection [of some_letters "[0x4E2D, 0x6587]"]
    script_detection [of some_letters "[0xE44, 0xE17, 0xE22]"]
    script_detection [of some_letters "[0x639, 0x631, 0x628, 0x64A]"]
    script_detection [of some_letters "[80, 97, 114, 105, 115, 0x4E2D]"]
    script_detection [of some_letters "[80, 97, 114, 105, 0x4E2D]"]
  by (simp add: some_letters_def)

section \<open>Title size\<close>

lemma adjusted_font_size_cases:
  "n \<le> 10 \<Longrightarrow> adjusted_font_size sf n = 60 * sf"
  "10 < n \<Longrightarrow> adjusted_font_size sf n = max (60 * sf * (10 / real n)) (10 * sf)"
  by (simp_all add: adjusted_font_size_def base_main_def Let_def)

lemma adjusted_font_size_20: "0 \<le> sf \<Longrightarrow> adjusted_font_size sf 20 = 60 * sf * (10 / 20)"
  by (simp add: adjusted_font_size_cases)

lemma typography_title:
  assumes "typography env T F rq = Inr ds"
    and "text_options rq = ''keep_all'' \<or> text_options rq = ''no_coords''
           \<or> text_options rq = ''no_country''"
  shows "hd ds = AxText 0.5 0.14 (Name (spaced_city env (shown_city rq))) (the (T ''text'')) None
            (font_main_adjusted (case fonts rq of Some files \<Rightarrow> Some files | None \<Rightarrow> F)
               (adjusted_font_size (scale_factor (height rq) (width rq))
                  (length (shown_city rq))))"
  using assms
  by (auto simp: typography_def and_then_def theme_item_def text_block_def Let_def
      split: option.splits)

lemma typography_returns:
  "T ''text'' \<noteq> None \<Longrightarrow> \<exists>ds. typography env T F rq = Inr ds"
  by (auto simp: typography_def and_then_def theme_item_def Let_def)

text \<open>
  C9.  With the scale factor \<open>min h w / 12\<close> of a poster of height \<open>h\<close> and width \<open>w\<close>, the
  size of the title font is \<open>60 * (min h w / 12)\<close> for a name of at most 10 characters, and
  for a longer name of \<open>n\<close> characters it is the larger of that size times \<open>10 / n\<close> and of
  \<open>10 * (min h w / 12)\<close>.  A name of 5 characters has the base size; a name of 20
  characters has the base size times \<open>10 / 20\<close> (the dimensions of a poster are not
  negative).  The title that \<open>create_poster\<close> draws has the name that is shown, and the
  font of this size for the length of that name.
\<close>

theorem title_font_size:
  "(n \<le> 10 \<longrightarrow> adjusted_font_size (scale_factor h w) n = 60 * (min h w / 12))
   \<and> (10 < n \<longrightarrow> adjusted_font_size (scale_factor h w) n
         = max (60 * (min h w / 12) * (10 / real n)) (10 * (min h w / 12)))
   \<and> adjusted_font_size (scale_factor h w) 5 = 60 * (min h w / 12)
   \<and> (0 \<le> min h w \<longrightarrow>
         adjusted_font_size (scale_factor h w) 20 = 60 * (min h w / 12) * (10 / 20))
   \<and> (typography env T F rq = Inr ds
        \<and> (text_options rq = ''keep_all'' \<or> text_options rq = ''no_coords''
             \<or> text_options rq = ''no_country'') \<longrightarrow>
       hd ds = AxText 0.5 0.14 (Name (spaced_city env (shown_city rq))) (the (T ''text'')) None
            (font_main_adjusted (case fonts rq of Some files \<Rightarrow> Some files | None \<Rightarrow> F)
               (adjusted_font_size (scale_factor (height rq) (width rq))
                  (length (shown_city rq)))))"
proof -
  have "0 \<le> min h w \<longrightarrow> 0 \<le> scale_factor h w" by (simp add: scale_factor_def)
  then have t: "0 \<le> min h w \<longrightarrow>
      adjusted_font_size (scale_factor h w) 20 = 60 * scale_factor h w * (10 / 20)"
    using adjusted_font_size_20 by blast
  have a: "(n \<le> 10 \<longrightarrow> adjusted_font_size (scale_factor h w) n = 60 * (min h w / 12))
   \<and> (10 < n \<longrightarrow> adjusted_font_size (scale_factor h w) n
         = max (60 * (min h w / 12) * (10 / real n)) (10 * (min h w / 12)))
   \<and> adjusted_font_size (scale_factor h w) 5 = 60 * (min h w / 12)
   \<and> (0 \<le> min h w \<longrightarrow>
         adjusted_font_size (scale_factor h w) 20 = 60 * (min h w / 12) * (10 / 20))"
    using t by (simp add: adjusted_font_size_cases) (simp add: scale_factor_def)
  from a typography_title [of env T F rq ds] show ?thesis by blast
qed

theorem title_font_size_witness:
  "adjusted_font_size (scale_factor 16 12) 5 = 60
   \<and> adjusted_font_size (scale_factor 16 12) 10 = 60
   \<and> adjusted_font_size (scale_factor 16 12) 20 = 30
   \<and> adjusted_font_size (scale_factor 16 12) 100 = 10
   \<and> hd (projr (typography paris_env demo_theme None paris_request))
       = AxText 0.5 0.14 (Name [80, 32, 32, 65, 32, 32, 82, 32, 32, 73, 32, 32, 83])
           ''#000000'' None (FontFamily ''monospace'' ''bold'' 60)"
proof -
  have k: "demo_theme ''text'' \<noteq> None" by (simp add: demo_theme_def)
  from typography_returns [of demo_theme paris_env None paris_request] k obtain ds where
    ds: "typography paris_env demo_theme None paris_request = Inr ds" by blast
  have o: "text_options paris_request = ''keep_all''" by (simp add: paris_request_def)
  have sc: "spaced_city paris_env (shown_city paris_request)
      = [80, 32, 32, 65, 32, 32, 82, 32, 32, 73, 32, 32, 83]"
    by (simp add: spaced_city_def shown_city_def py_or_def paris_request_def paris_env_def
        is_latin_script_def some_letters_def ascii_upper_def)
  have f: "font_main_adjusted (case fonts paris_request of Some files \<Rightarrow> Some files | None \<Rightarrow> None)
             (adjusted_font_size (scale_factor (height paris_request) (width paris_request))
                (length (shown_city paris_request)))
      = FontFamily ''monospace'' ''bold'' 60"
    by (simp add: font_main_adjusted_def adjusted_font_size_cases scale_factor_def shown_city_def
        py_or_def paris_request_def)
  have c: "the (demo_theme ''text'') = ''#000000''" by (simp add: demo_theme_def)
  from title_font_size [where n = 5 and h = 16 and w = 12 and env = paris_env
      and T = demo_theme and F = None and rq = paris_request and ds = ds] ds o
  have h5: "adjusted_font_size (scale_factor 16 12) 5 = 60"
    and hd: "hd ds = AxText 0.5 0.14 (Name (spaced_city paris_env (shown_city paris_request)))
            (the (demo_theme ''text'')) None
            (font_main_adjusted (case fonts paris_request of Some files \<Rightarrow> Some files | None \<Rightarrow> None)
               (adjusted_font_size (scale_factor (height paris_request) (width paris_request))
                  (length (shown_city paris_request))))"
    by simp_all
  from title_font_size [where n = 10 and h = 16 and w = 12]
  have h10: "adjusted_font_size (scale_factor 16 12) 10 = 60" by simp
  from title_font_size [where n = 20 and h = 16 and w = 12]
  have h20: "adjusted_font_size (scale_factor 16 12) 20 = 30" by simp
  from title_font_size [where n = 100 and h = 16 and w = 12]
  have h100: "adjusted_font_size (scale_factor 16 12) 100 = 10" by simp
  show ?thesis
    by (simp only: h5 h10 h20 h100 ds sum.sel hd sc f c simp_thms)
qed

section \<open>Fetching\<close>






lemma fetch_features_returns: "\<exists>r. fst (fetch_features env p d t n st) = Inr r"
  by (simp add: fetch_features_def case_prod_beta Let_def split: option.splits sum.splits)




lemma fetch_map_data_graph:
  assumes cd: "compensated_dist (dist_m rq) (height rq) (width rq) = Inr cd"
    and g: "fst (fetch_graph env (point rq) cd st) = Inr (Some g)"
  shows "\<exists>md. fst (fetch_map_data env rq st) = Inr md
           \<and> fetched_dist md = cd \<and> fetched_graph md = g"
proof -
  obtain st1 where g1: "fetch_graph env (point rq) cd st = (Inr (Some g), st1)"
    using g by (cases "fetch_graph env (point rq) cd st") simp
  obtain wa st2 where
    w: "fetch_features env (point rq) cd water_tags ''water'' st1 = (Inr wa, st2)"
    using fetch_features_returns [of env "point rq" cd water_tags "''water''" st1]
    by (cases "fetch_features env (point rq) cd water_tags ''water'' st1") auto
  obtain pa st3 where
    p: "fetch_features env (point rq) cd parks_tags ''parks'' st2 = (Inr pa, st3)"
    using fetch_features_returns [of env "point rq" cd parks_tags "''parks''" st2]
    by (cases "fetch_features env (point rq) cd parks_tags ''parks'' st2") auto
  obtain ra st4 where
    r: "fetch_features env (point rq) cd railways_tags ''railways'' st3 = (Inr ra, st4)"
    using fetch_features_returns [of env "point rq" cd railways_tags "''railways''" st3]
    by (cases "fetch_features env (point rq) cd railways_tags ''railways'' st3") auto
  show ?thesis
    by (simp add: fetch_map_data_def cd g1 w p r)
qed



section \<open>The poster\<close>

lemma and_then_Inr: "and_then m f = Inr y \<longleftrightarrow> (\<exists>x. m = Inr x \<and> f x = Inr y)"
  by (cases m) (simp_all add: and_then_def)

lemma and_then_Inr_eq: "and_then (Inr x) f = f x"
  by (simp add: and_then_def)

lemma xlim_of_append:
  "list_all (\<lambda>d. \<not> sets_limits d) xs \<Longrightarrow> xlim_of (xs @ ys) = xlim_of ys"
  by (induction xs rule: xlim_of.induct) auto

lemma ylim_of_append:
  "list_all (\<lambda>d. \<not> sets_limits d) xs \<Longrightarrow> ylim_of (xs @ ys) = ylim_of ys"
  by (induction xs rule: ylim_of.induct) auto

lemma polygon_layer_draws:
  "polygon_layer env T g l role z = Inr ds \<Longrightarrow> list_all (\<lambda>d. \<not> sets_limits d) ds"
  by (auto simp: polygon_layer_def and_then_def theme_item_def Let_def
      split: option.splits if_splits)

lemma rail_layer_draws: "list_all (\<lambda>d. \<not> sets_limits d) (rail_layer env T g l)"
  by (auto simp: rail_layer_def plot_rail_group_def Let_def list_all_iff
      split: option.splits prod.splits)

lemma polygon_layer_returns:
  "T role \<noteq> None \<Longrightarrow> \<exists>ds. polygon_layer env T g l role z = Inr ds"
  by (auto simp: polygon_layer_def and_then_def theme_item_def Let_def split: option.splits)

lemma render_limits:
  assumes "render env T F rq md = Inr ds"
  shows "xlim_of ds = Some (fst (get_crop_limits (project_geometry env)
             (project_graph env (fetched_graph md)) (point rq) (width rq, height rq)
             (fetched_dist md)))
       \<and> ylim_of ds = Some (snd (get_crop_limits (project_geometry env)
             (project_graph env (fetched_graph md)) (point rq) (width rq, height rq)
             (fetched_dist md)))"
proof -
  let ?g = "project_graph env (fetched_graph md)"
  let ?L = "get_crop_limits (project_geometry env) ?g (point rq) (width rq, height rq)
              (fetched_dist md)"
  from assms obtain bg wd pd ec gc td where
    w: "polygon_layer env T ?g (fetched_water md) ''water'' 0.5 = Inr wd" and
    p: "polygon_layer env T ?g (fetched_parks md) ''parks'' 0.8 = Inr pd" and
    ds: "ds = [Subplots (width rq) (height rq) bg] @ wd @ pd
            @ [PlotGraph ?g ec (get_edge_widths_by_type ?g) bg]
            @ rail_layer env T ?g (fetched_railways md)
            @ [SetAspectEqual, SetXlim (fst ?L), SetYlim (snd ?L),
               GradientFade gc ''bottom'', GradientFade gc ''top'']
            @ td
            @ [SaveFig (output_file rq) (lower env (output_format rq))
                 (if lower env (output_format rq) = ''png'' then Some 300 else None)]"
    by (auto simp: render_def and_then_Inr Let_def case_prod_beta)
  show ?thesis
    by (simp add: ds xlim_of_append ylim_of_append polygon_layer_draws [OF w]
        polygon_layer_draws [OF p] rail_layer_draws)
qed

lemma render_returns:
  assumes "\<forall>k\<in>set main_theme_keys. T k \<noteq> None"
    and "\<forall>k\<in>set edge_theme_keys. util_THEME env k \<noteq> None"
  shows "\<exists>ds. render env T F rq md = Inr ds"
proof -
  from assms(1) have k: "T ''bg'' \<noteq> None" "T ''water'' \<noteq> None" "T ''parks'' \<noteq> None"
      "T ''gradient_color'' \<noteq> None" "T ''text'' \<noteq> None"
    by (simp_all add: main_theme_keys_def)
  let ?g = "project_graph env (fetched_graph md)"
  obtain bg where bg: "theme_item T ''bg'' = Inr bg"
    using k by (auto simp: theme_item_def)
  obtain gc where gc: "theme_item T ''gradient_color'' = Inr gc"
    using k by (auto simp: theme_item_def)
  obtain wd where wd: "polygon_layer env T ?g (fetched_water md) ''water'' 0.5 = Inr wd"
    using polygon_layer_returns k by blast
  obtain pd where pd: "polygon_layer env T ?g (fetched_parks md) ''parks'' 0.8 = Inr pd"
    using polygon_layer_returns k by blast
  obtain td where td: "typography env T F rq = Inr td"
    using typography_returns k by blast
  have ec: "get_edge_colors_by_type (util_THEME env) ?g
      = Inr (map (\<lambda>e. the (util_THEME env (edge_color_role (snd (snd e))))) (edges ?g))"
    using assms(2) by (simp add: get_edge_colors_by_type_def edge_colors_loop_total)
  show ?thesis
    unfolding render_def
    by (simp only: bg gc wd pd td ec and_then_Inr_eq Let_def case_prod_beta) blast
qed

lemma create_poster_fst:
  "fst (create_poster env T F rq st) =
     (case fst (fetch_map_data env rq st) of Inl e \<Rightarrow> Inl e | Inr md \<Rightarrow> render env T F rq md)"
  by (simp add: create_poster_def split: prod.splits sum.splits)


lemma create_poster_limits:
  assumes cd: "compensated_dist (dist_m rq) (height rq) (width rq) = Inr cd"
    and g: "fst (fetch_graph env (point rq) cd st) = Inr (Some g)"
    and ds: "fst (create_poster env T F rq st) = Inr ds"
  shows "xlim_of ds = Some (fst (get_crop_limits (project_geometry env) (project_graph env g)
                               (point rq) (width rq, height rq) cd))
       \<and> ylim_of ds = Some (snd (get_crop_limits (project_geometry env) (project_graph env g)
                               (point rq) (width rq, height rq) cd))"
proof -
  from fetch_map_data_graph [OF cd g] obtain md where
    md: "fst (fetch_map_data env rq st) = Inr md" "fetched_dist md = cd" "fetched_graph md = g"
    by blast
  from ds md have "render env T F rq md = Inr ds" by (simp add: create_poster_fst)
  from render_limits [OF this] md show ?thesis by simp
qed

lemma create_poster_returns:
  assumes cd: "compensated_dist (dist_m rq) (height rq) (width rq) = Inr cd"
    and g: "fst (fetch_graph env (point rq) cd st) = Inr (Some g)"
    and "\<forall>k\<in>set main_theme_keys. T k \<noteq> None"
    and "\<forall>k\<in>set edge_theme_keys. util_THEME env k \<noteq> None"
  shows "\<exists>ds. fst (create_poster env T F rq st) = Inr ds"
proof -
  from fetch_map_data_graph [OF cd g] obtain md where
    md: "fst (fetch_map_data env rq st) = Inr md" by blast
  from render_returns [OF assms(3,4)] obtain ds where "render env T F rq md = Inr ds"
    by blast
  with md show ?thesis by (simp add: create_poster_fst)
qed


text \<open>The small world.\<close>

lemma demo_theme_main: "\<forall>k\<in>set main_theme_keys. demo_theme k \<noteq> None"
  by (simp add: main_theme_keys_def demo_theme_def)

lemma paris_util_theme: "\<forall>k\<in>set edge_theme_keys. util_THEME paris_env k \<noteq> None"
  using demo_theme_edges by (simp add: paris_env_def)

lemma paris_fetch_graph:
  "fst (fetch_graph paris_env (48.8566, 2.3522) d empty_io) = Inr (Some paris_graph)"
  by (simp add: fetch_graph_def fetch_graph_try_def paris_env_def empty_io_def
      cache_get_graph_def)

lemma paris_compensated:
  "compensated_dist (dist_m paris_request) (height paris_request) (width paris_request)
     = Inr (10000 / 3)"
  by (simp add: compensated_dist_def paris_request_def)



lemma paris_point: "point paris_request = (48.8566, 2.3522)"
  by (simp add: paris_request_def)



text \<open>
  C1, as the code has it.  For the centre (48.8566, 2.3522), the radius 10000 and a figure
  of 12 by 16, \<open>create_poster\<close> fetches and crops with the compensated radius
  \<open>10000 * (16 / 12) / 4 = 10000 / 3\<close>: when the fetch of the network succeeds, the limits
  it computes have the horizontal half extent \<open>(10000 / 3) * 12 / 16 = 2500\<close> and the
  vertical half extent \<open>10000 / 3\<close> around the projected centre, and these are the limits
  that a poster it draws sets.
\<close>

theorem paris_viewport:
  assumes "point rq = (48.8566, 2.3522)" "dist_m rq = 10000" "width rq = 12" "height rq = 16"
    and "fst (fetch_graph env (point rq) (10000 / 3) st) = Inr (Some g)"
  shows "compensated_dist (dist_m rq) (height rq) (width rq) = Inr (10000 / 3)
    \<and> half_width (get_crop_limits (project_geometry env) (project_graph env g) (point rq)
         (width rq, height rq) (10000 / 3)) = 2500
    \<and> half_height (get_crop_limits (project_geometry env) (project_graph env g) (point rq)
         (width rq, height rq) (10000 / 3)) = 10000 / 3
    \<and> (\<forall>ds. fst (create_poster env T F rq st) = Inr ds \<longrightarrow>
          xlim_of ds = Some (fst (project_geometry env (crs (project_graph env g)) (2.3522, 48.8566)) - 2500,
                             fst (project_geometry env (crs (project_graph env g)) (2.3522, 48.8566)) + 2500)
          \<and> ylim_of ds = Some (snd (project_geometry env (crs (project_graph env g)) (2.3522, 48.8566)) - 10000 / 3,
                             snd (project_geometry env (crs (project_graph env g)) (2.3522, 48.8566)) + 10000 / 3))"
proof -
  have cd: "compensated_dist (dist_m rq) (height rq) (width rq) = Inr (10000 / 3)"
    using assms by (simp add: compensated_dist_def)
  let ?L = "get_crop_limits (project_geometry env) (project_graph env g) (point rq)
         (width rq, height rq) (10000 / 3)"
  let ?c = "project_geometry env (crs (project_graph env g)) (2.3522, 48.8566)"
  have L: "?L = ((fst ?c - 2500, fst ?c + 2500), (snd ?c - 10000 / 3, snd ?c + 10000 / 3))"
    using assms(1,3,4)
    by (simp add: get_crop_limits_def crop_half_extents_def case_prod_beta)
  have hw: "half_width ?L = 2500" and hh: "half_height ?L = 10000 / 3"
    unfolding L by (simp_all add: half_width_def half_height_def)
  have "\<forall>ds. fst (create_poster env T F rq st) = Inr ds \<longrightarrow>
          xlim_of ds = Some (fst ?L) \<and> ylim_of ds = Some (snd ?L)"
    using create_poster_limits [OF cd assms(5)] by blast
  then have "\<forall>ds. fst (create_poster env T F rq st) = Inr ds \<longrightarrow>
          xlim_of ds = Some (fst ?c - 2500, fst ?c + 2500)
          \<and> ylim_of ds = Some (snd ?c - 10000 / 3, snd ?c + 10000 / 3)"
    unfolding L by simp
  with cd hw hh show ?thesis by blast
qed

theorem paris_viewport_witness:
  "half_width (get_crop_limits (project_geometry paris_env) (project_graph paris_env paris_graph)
      (point paris_request) (width paris_request, height paris_request) (10000 / 3)) = 2500
   \<and> (\<exists>ds. fst (create_poster paris_env demo_theme None paris_request empty_io) = Inr ds
         \<and> xlim_of ds = Some (449500, 454500)
         \<and> ylim_of ds = Some (5411000 - 10000 / 3, 5411000 + 10000 / 3))"
proof -
  have g: "fst (fetch_graph paris_env (point paris_request) (10000 / 3) empty_io)
             = Inr (Some paris_graph)"
    by (simp only: paris_point paris_fetch_graph)
  from create_poster_returns [OF paris_compensated g demo_theme_main paris_util_theme]
  obtain ds where ds: "fst (create_poster paris_env demo_theme None paris_request empty_io) = Inr ds"
    by blast
  have r: "point paris_request = (48.8566, 2.3522)" "dist_m paris_request = 10000"
      "width paris_request = 12" "height paris_request = 16"
    by (simp_all add: paris_request_def)
  have c: "project_geometry paris_env (crs (project_graph paris_env paris_graph)) (2.3522, 48.8566)
      = (452000, 5411000)"
    by (simp add: paris_env_def)
  from paris_viewport [OF r g, of demo_theme None] ds
  have "half_width (get_crop_limits (project_geometry paris_env) (project_graph paris_env paris_graph)
      (point paris_request) (width paris_request, height paris_request) (10000 / 3)) = 2500"
    and "xlim_of ds = Some (fst (project_geometry paris_env (crs (project_graph paris_env paris_graph)) (2.3522, 48.8566)) - 2500,
                             fst (project_geometry paris_env (crs (project_graph paris_env paris_graph)) (2.3522, 48.8566)) + 2500)"
    and "ylim_of ds = Some (snd (project_geometry paris_env (crs (project_graph paris_env paris_graph)) (2.3522, 48.8566)) - 10000 / 3,
                             snd (project_geometry paris_env (crs (project_graph paris_env paris_graph)) (2.3522, 48.8566)) + 10000 / 3)"
    by blast+
  with ds show ?thesis unfolding c by simp
qed

text \<open>
  The claim C1 as the spec states it fails: in the small world the poster of that request
  sets the limits 2500 to each side of the centre and \<open>10000 / 3\<close> above and below it, not
  7500 and 10000.
\<close>

theorem paris_viewport_is_a_third:
  "\<not> isl (fst (create_poster paris_env demo_theme None paris_request empty_io))
   \<and> xlim_of (projr (fst (create_poster paris_env demo_theme None paris_request empty_io)))
       = Some (452000 - 2500, 452000 + 2500)
   \<and> ylim_of (projr (fst (create_poster paris_env demo_theme None paris_request empty_io)))
       = Some (5411000 - 10000 / 3, 5411000 + 10000 / 3)
   \<and> xlim_of (projr (fst (create_poster paris_env demo_theme None paris_request empty_io)))
       \<noteq> Some (452000 - 7500, 452000 + 7500)
   \<and> ylim_of (projr (fst (create_poster paris_env demo_theme None paris_request empty_io)))
       \<noteq> Some (5411000 - 10000, 5411000 + 10000)"
proof -
  have g: "fst (fetch_graph paris_env (point paris_request) (10000 / 3) empty_io)
             = Inr (Some paris_graph)"
    by (simp only: paris_point paris_fetch_graph)
  from create_poster_returns [OF paris_compensated g demo_theme_main paris_util_theme]
  obtain ds where ds: "fst (create_poster paris_env demo_theme None paris_request empty_io) = Inr ds"
    by blast
  have L: "get_crop_limits (project_geometry paris_env) (project_graph paris_env paris_graph)
      (point paris_request) (width paris_request, height paris_request) (10000 / 3)
      = ((449500, 454500), (5411000 - 10000 / 3, 5411000 + 10000 / 3))"
    by (simp add: get_crop_limits_def crop_half_extents_def paris_env_def paris_request_def)
  from create_poster_limits [OF paris_compensated g ds]
  have "xlim_of ds = Some (449500, 454500)"
    and "ylim_of ds = Some (5411000 - 10000 / 3, 5411000 + 10000 / 3)"
    unfolding L by simp_all
  then show ?thesis unfolding ds by simp
qed





section \<open>Further properties\<close>

text \<open>
  The attribution line is the last text of every poster, in every text mode, in the
  colour \<open>text\<close> of the theme and at the fixed size 8.
\<close>

theorem attribution_is_always_drawn:
  assumes "typography env T F rq = Inr ds"
  shows "ds \<noteq> [] \<and> last ds = AxText 0.98 0.02 (Name attribution_text) (the (T ''text'')) (Some 0.5)
           (case F of Some files \<Rightarrow> FontFile (light files) 8
                    | None \<Rightarrow> FontFamily ''monospace'' ''normal'' 8)"
  using assms
  by (auto simp: typography_def and_then_def theme_item_def Let_def split: option.splits)

theorem attribution_is_always_drawn_witness:
  "last (projr (typography paris_env demo_theme None (paris_request\<lparr>text_options := ''clear_all''\<rparr>)))
     = AxText 0.98 0.02 (Name attribution_text) ''#000000'' (Some 0.5) (FontFamily ''monospace'' ''normal'' 8)"
proof -
  let ?rq = "paris_request\<lparr>text_options := ''clear_all''\<rparr>"
  have k: "demo_theme ''text'' \<noteq> None" by (simp add: demo_theme_def)
  from typography_returns [of demo_theme paris_env None ?rq] k obtain ds where
    ds: "typography paris_env demo_theme None ?rq = Inr ds" by blast
  have c: "the (demo_theme ''text'') = ''#000000''" by (simp add: demo_theme_def)
  from attribution_is_always_drawn [OF ds] show ?thesis unfolding ds c by simp
qed

text \<open>
  The five text modes: \<open>keep_all\<close> draws the city, the country and the coordinates,
  \<open>no_coords\<close> the city and the country, \<open>no_country\<close> the city and the coordinates,
  \<open>no_city_country\<close> the coordinates alone, in the place and the font of the title, and
  \<open>clear_all\<close> nothing.
\<close>

theorem text_modes:
  "text_block ''keep_all'' sc cu pt col fm fs fc sf =
     [AxText 0.5 0.14 (Name sc) col None fm, AxText 0.5 0.10 (Name cu) col None fs,
      AxText 0.5 0.07 (coords_label pt) col (Some 0.7) fc, AxLine 0.125 col (1 * sf)]
   \<and> text_block ''no_coords'' sc cu pt col fm fs fc sf =
     [AxText 0.5 0.14 (Name sc) col None fm, AxText 0.5 0.10 (Name cu) col None fs,
      AxLine 0.125 col (1 * sf)]
   \<and> text_block ''no_country'' sc cu pt col fm fs fc sf =
     [AxText 0.5 0.14 (Name sc) col None fm,
      AxText 0.5 0.10 (coords_label pt) col (Some 0.7) fc, AxLine 0.125 col (1 * sf)]
   \<and> text_block ''no_city_country'' sc cu pt col fm fs fc sf =
     [AxText 0.5 0.14 (coords_label pt) col (Some 0.7) fm]
   \<and> text_block ''clear_all'' sc cu pt col fm fs fc sf = []"
  by (simp add: text_block_def)

text \<open>
  A cached network is returned without a request and leaves the state as it is.  After a
  request that returned a network, with a cache write that succeeded, the same fetch is
  answered from the cache.
\<close>

theorem cached_graph_is_not_requested:
  "(cache_get_graph (cache st) (fst p, snd p, d) = Some g \<longrightarrow>
      fetch_graph env p d st = (Inr (Some g), st))
   \<and> (cache_get_graph (cache st) (fst p, snd p, d) = None \<and> graph_from_point env p d = Inr g
        \<and> cache_set_error env (GraphKey (fst p) (snd p) d) = None \<longrightarrow>
      fst (fetch_graph env p d st) = Inr (Some g)
      \<and> requests (snd (fetch_graph env p d st)) = requests st @ [GraphRequest p d]
      \<and> fetch_graph env p d (snd (fetch_graph env p d st))
          = (Inr (Some g), snd (fetch_graph env p d st)))"
  by (simp add: fetch_graph_def fetch_graph_try_def cache_get_graph_def case_prod_beta)

theorem cached_graph_is_not_requested_witness:
  "fst (fetch_graph paris_env (48.8566, 2.3522) (10000 / 3) empty_io) = Inr (Some paris_graph)
   \<and> requests (snd (fetch_graph paris_env (48.8566, 2.3522) (10000 / 3) empty_io))
       = [GraphRequest (48.8566, 2.3522) (10000 / 3)]
   \<and> requests (snd (fetch_graph paris_env (48.8566, 2.3522) (10000 / 3)
         (snd (fetch_graph paris_env (48.8566, 2.3522) (10000 / 3) empty_io))))
       = [GraphRequest (48.8566, 2.3522) (10000 / 3)]"
proof -
  let ?p = "(48.8566, 2.3522) :: real \<times> real"
  let ?st = "snd (fetch_graph paris_env ?p (10000 / 3) empty_io)"
  have m: "cache_get_graph (cache empty_io) (fst ?p, snd ?p, 10000 / 3) = None"
    by (simp add: cache_get_graph_def empty_io_def)
  have r: "graph_from_point paris_env ?p (10000 / 3) = Inr paris_graph"
    by (simp add: paris_env_def)
  have w: "cache_set_error paris_env (GraphKey (fst ?p) (snd ?p) (10000 / 3)) = None"
    by (simp add: paris_env_def)
  have e: "requests empty_io = []" by (simp add: empty_io_def)
  from cached_graph_is_not_requested [of empty_io ?p "10000 / 3" paris_graph paris_env] m r w
  have a: "fst (fetch_graph paris_env ?p (10000 / 3) empty_io) = Inr (Some paris_graph)"
    and b: "requests ?st = requests empty_io @ [GraphRequest ?p (10000 / 3)]"
    and c: "fetch_graph paris_env ?p (10000 / 3) ?st = (Inr (Some paris_graph), ?st)"
    by blast+
  from a b show ?thesis unfolding c e by simp
qed

text \<open>
  When the network is not cached and its request raises, \<open>create_poster\<close> ends with the
  \<open>RuntimeError\<close> of line 61 and has made this one request: no features are fetched.
\<close>

theorem no_feature_fetch_without_graph:
  assumes "compensated_dist (dist_m rq) (height rq) (width rq) = Inr cd"
    and "cache_get_graph (cache st) (fst (point rq), snd (point rq), cd) = None"
    and "graph_from_point env (point rq) cd = Inl e"
  shows "create_poster env T F rq st
           = (Inl (RuntimeError ''Failed to retrieve street network data.''),
              st\<lparr>requests := requests st @ [GraphRequest (point rq) cd]\<rparr>)"
  using assms
  by (simp add: create_poster_def fetch_map_data_def fetch_graph_def fetch_graph_try_def
      case_prod_beta)

theorem no_feature_fetch_without_graph_witness:
  "create_poster offline_env demo_theme None paris_request empty_io
     = (Inl (RuntimeError ''Failed to retrieve street network data.''),
        empty_io\<lparr>requests := [GraphRequest (48.8566, 2.3522) (10000 / 3)]\<rparr>)"
proof -
  have m: "cache_get_graph (cache empty_io) (fst (point paris_request), snd (point paris_request), 10000 / 3) = None"
    by (simp add: cache_get_graph_def empty_io_def)
  have r: "graph_from_point offline_env (point paris_request) (10000 / 3) = Inl (OtherException ''timeout'')"
    by (simp add: offline_env_def paris_env_def)
  have e: "requests empty_io = []" by (simp add: empty_io_def)
  from no_feature_fetch_without_graph [OF paris_compensated m r, of demo_theme None]
  show ?thesis unfolding e paris_point by simp
qed

end
